theory Spec2Isabelle
  imports Complex_Main
begin

section \<open>Interference reference model: data model and constants\<close>

text \<open>
  Shallow embedding of \<^verbatim>\<open>harness/reference_models/interference/interference.py\<close>.
  Python floats are read as real numbers, so every statement below is about the
  arithmetic the formulas denote, not about rounding. Exceptions are values of the
  type \<open>error\<close>, returned on the left of a sum.
\<close>

datatype error = AssertionError | KeyError | ValueError | AttributeError | UnboundLocalError

datatype ProtectedEntityType = GWPZ_AREA | PPA_AREA | FSS_CO_CHANNEL | FSS_BLOCKING | ESC

text \<open>
  The \<^verbatim>\<open>entity_type\<close> field of a constraint is an ordinary Python attribute: it can
  hold a member of the enumeration or anything else. The values the module itself
  compares with each other are enumeration members, the pairs of distances stored
  in the neighborhood table, and unrelated objects (here: a string).
\<close>

datatype pyobj = Member ProtectedEntityType | Tuple2 real real | Other string

definition GWPZ_NEIGHBORHOOD_DIST :: real where "GWPZ_NEIGHBORHOOD_DIST = 40"
definition PPA_NEIGHBORHOOD_DIST :: real where "PPA_NEIGHBORHOOD_DIST = 40"
definition FSS_CO_CHANNEL_NEIGHBORHOOD_DIST :: real where "FSS_CO_CHANNEL_NEIGHBORHOOD_DIST = 150"
definition FSS_BLOCKING_NEIGHBORHOOD_DIST :: real where "FSS_BLOCKING_NEIGHBORHOOD_DIST = 40"
definition ESC_NEIGHBORHOOD_DIST_A :: real where "ESC_NEIGHBORHOOD_DIST_A = 40"
definition ESC_NEIGHBORHOOD_DIST_B :: real where "ESC_NEIGHBORHOOD_DIST_B = 80"

definition FREQ_PROP_MODEL_MHZ :: real where "FREQ_PROP_MODEL_MHZ = 3625"
definition ESC_CAT_A_HIGH_FREQ_HZ :: real where "ESC_CAT_A_HIGH_FREQ_HZ = 3660000000"
definition MHZ :: real where "MHZ = 1000000"
definition IAPBW_HZ :: real where "IAPBW_HZ = 5000000"
definition GWPZ_PPA_HEIGHT :: real where "GWPZ_PPA_HEIGHT = 3 / 2"
definition IN_BAND_INSERTION_LOSS :: real where "IN_BAND_INSERTION_LOSS = 1 / 2"

text \<open>The dictionary \<^verbatim>\<open>_DISTANCE_PER_PROTECTION_TYPE\<close>: its keys are the five members.\<close>

fun DISTANCE_PER_PROTECTION_TYPE :: "pyobj \<rightharpoonup> real \<times> real" where
  "DISTANCE_PER_PROTECTION_TYPE (Member GWPZ_AREA) =
     Some (GWPZ_NEIGHBORHOOD_DIST, GWPZ_NEIGHBORHOOD_DIST)"
| "DISTANCE_PER_PROTECTION_TYPE (Member PPA_AREA) =
     Some (PPA_NEIGHBORHOOD_DIST, PPA_NEIGHBORHOOD_DIST)"
| "DISTANCE_PER_PROTECTION_TYPE (Member FSS_CO_CHANNEL) =
     Some (FSS_CO_CHANNEL_NEIGHBORHOOD_DIST, FSS_CO_CHANNEL_NEIGHBORHOOD_DIST)"
| "DISTANCE_PER_PROTECTION_TYPE (Member FSS_BLOCKING) =
     Some (FSS_BLOCKING_NEIGHBORHOOD_DIST, FSS_BLOCKING_NEIGHBORHOOD_DIST)"
| "DISTANCE_PER_PROTECTION_TYPE (Member ESC) =
     Some (ESC_NEIGHBORHOOD_DIST_A, ESC_NEIGHBORHOOD_DIST_B)"
| "DISTANCE_PER_PROTECTION_TYPE _ = None"

record CbsdGrantInformation =
  latitude :: real
  longitude :: real
  height_agl :: real
  indoor_deployment :: bool
  antenna_azimuth :: real
  antenna_gain :: real
  antenna_beamwidth :: real
  cbsd_category :: string
  max_eirp :: real
  low_frequency :: real
  high_frequency :: real
  is_managed_grant :: bool

record ProtectionConstraint =
  pc_latitude :: real
  pc_longitude :: real
  pc_low_frequency :: real
  pc_high_frequency :: real
  entity_type :: pyobj

record FssProtectionPoint =
  fss_latitude :: real
  fss_longitude :: real
  fss_height_agl :: real
  max_gain_dbi :: real
  pointing_azimuth :: real
  pointing_elevation :: real

record EscInformation =
  antenna_height :: real
  esc_antenna_azimuth :: real
  esc_antenna_gain :: real
  antenna_pattern_gain :: "(real \<times> real) list"

definition dbToLinear :: "real \<Rightarrow> real" where
  "dbToLinear x = 10 powr (x / 10)"

definition linearToDb :: "real \<Rightarrow> real" where
  "linearToDb x = 10 * log 10 x"

section \<open>Channelizer\<close>

text \<open>
  \<^verbatim>\<open>np.arange(start, stop, step)\<close> is the library's: it has
  \<open>\<lceil>(stop - start) / step\<rceil>\<close> elements (none when that is not positive), the
  \<open>i\<close>-th being \<open>start + i * step\<close>.
\<close>

definition arange :: "real \<Rightarrow> real \<Rightarrow> real \<Rightarrow> real list" where
  "arange start stop step =
     map (\<lambda>i. start + real i * step) [0 ..< nat \<lceil>(stop - start) / step\<rceil>]"

definition getProtectedChannels :: "real \<Rightarrow> real \<Rightarrow> error + (real \<times> real) list" where
  "getProtectedChannels low_freq_hz high_freq_hz =
     (if \<not> low_freq_hz < high_freq_hz then Inl AssertionError
      else
        let channels = arange (max low_freq_hz (3550 * MHZ)) (min high_freq_hz (3700 * MHZ)) (5 * MHZ)
        in Inr (zip channels (map (\<lambda>c. c + 5 * MHZ) channels)))"

section \<open>Blocking mask loss\<close>

text \<open>The four conditions of the \<^verbatim>\<open>if\<close>/\<^verbatim>\<open>elif\<close> chain of \<^verbatim>\<open>getFssMaskLoss\<close>, in order.\<close>

definition mask_offset :: "ProtectionConstraint \<Rightarrow> real" where
  "mask_offset constraint = pc_low_frequency constraint - 50000000"

definition mask_branch1 :: "CbsdGrantInformation \<Rightarrow> ProtectionConstraint \<Rightarrow> bool" where
  "mask_branch1 cbsd_grant constraint \<longleftrightarrow>
     pc_low_frequency constraint < low_frequency cbsd_grant \<and>
     pc_low_frequency constraint < high_frequency cbsd_grant"

definition mask_branch2 :: "CbsdGrantInformation \<Rightarrow> ProtectionConstraint \<Rightarrow> bool" where
  "mask_branch2 cbsd_grant constraint \<longleftrightarrow>
     low_frequency cbsd_grant < mask_offset constraint \<and>
     high_frequency cbsd_grant < mask_offset constraint"

definition mask_branch3 :: "CbsdGrantInformation \<Rightarrow> ProtectionConstraint \<Rightarrow> bool" where
  "mask_branch3 cbsd_grant constraint \<longleftrightarrow>
     low_frequency cbsd_grant < mask_offset constraint \<and>
     high_frequency cbsd_grant > mask_offset constraint"

definition mask_branch4 :: "CbsdGrantInformation \<Rightarrow> ProtectionConstraint \<Rightarrow> bool" where
  "mask_branch4 cbsd_grant constraint \<longleftrightarrow>
     pc_low_frequency constraint > low_frequency cbsd_grant \<and>
     pc_low_frequency constraint > high_frequency cbsd_grant \<and>
     low_frequency cbsd_grant > mask_offset constraint \<and>
     high_frequency cbsd_grant > mask_offset constraint"

definition getFssMaskLoss :: "CbsdGrantInformation \<Rightarrow> ProtectionConstraint \<Rightarrow> real" where
  "getFssMaskLoss cbsd_grant constraint =
     (let offset = mask_offset constraint;
          cbsd_freq_range = high_frequency cbsd_grant - low_frequency cbsd_grant
      in if mask_branch1 cbsd_grant constraint then 1 / 2
         else if mask_branch2 cbsd_grant constraint then
           linearToDb ((cbsd_freq_range / MHZ) * (1 / 4))
         else if mask_branch3 cbsd_grant constraint then
           linearToDb (((offset - low_frequency cbsd_grant) / MHZ) * (1 / 4))
             + linearToDb (((high_frequency cbsd_grant - offset) / MHZ) * (6 / 10))
         else if mask_branch4 cbsd_grant constraint then
           linearToDb ((cbsd_freq_range / MHZ) * (6 / 10))
         else 0)"

section \<open>External collaborators\<close>

text \<open>
  The geodesic, terrain, propagation and antenna modules are imported by the file and
  are not part of it: they are parameters of the model. Of the triple a propagation
  model returns, the third component is discarded by every caller and is left out.
  The keyword arguments \<^verbatim>\<open>reliability\<close> and \<^verbatim>\<open>freq_mhz\<close> are passed in this order
  after the positional ones.
\<close>

record IncidenceAngles =
  hor_cbsd :: real
  ver_cbsd :: real
  hor_rx :: real
  ver_rx :: real

record collaborators =
  GeodesicDistanceBearing :: "real \<Rightarrow> real \<Rightarrow> real \<Rightarrow> real \<Rightarrow> real \<times> real \<times> real"
  GetTerrainElevation :: "real \<Rightarrow> real \<Rightarrow> real"
  CalcItmPropagationLoss ::
    "real \<Rightarrow> real \<Rightarrow> real \<Rightarrow> real \<Rightarrow> real \<Rightarrow> real \<Rightarrow> bool \<Rightarrow> real \<Rightarrow> real \<Rightarrow> real \<times> IncidenceAngles"
  CalcHybridPropagationLoss ::
    "real \<Rightarrow> real \<Rightarrow> real \<Rightarrow> real \<Rightarrow> real \<Rightarrow> real \<Rightarrow> bool \<Rightarrow> real \<Rightarrow> real \<Rightarrow> string option
       \<Rightarrow> real \<times> IncidenceAngles"
  GetStandardAntennaGains :: "real \<Rightarrow> real \<Rightarrow> real \<Rightarrow> real \<Rightarrow> real"
  GetAntennaPatternGains :: "real \<Rightarrow> real \<Rightarrow> (real \<times> real) list \<Rightarrow> real \<Rightarrow> real"
  GetFssAntennaGains :: "real \<Rightarrow> real \<Rightarrow> real \<Rightarrow> real \<Rightarrow> real \<Rightarrow> real"

text \<open>
  Every invocation of a propagation model is recorded, with the two end points it was
  asked about, in a log that the interference formulas return beside their value.
\<close>

datatype propagation_call =
  ItmCall real real real real
| HybridCall real real real real

section \<open>Neighborhood and frequency filters\<close>

text \<open>Indexing a pair with a Python boolean: \<^verbatim>\<open>False\<close> is index 0, \<^verbatim>\<open>True\<close> index 1.\<close>

definition index_bool :: "'a \<times> 'a \<Rightarrow> bool \<Rightarrow> 'a" where
  "index_bool p b = (if b then snd p else fst p)"

fun findGrantsInsideNeighborhood_loop ::
  "collaborators \<Rightarrow> CbsdGrantInformation list \<Rightarrow> real \<times> real \<Rightarrow> pyobj
     \<Rightarrow> CbsdGrantInformation list \<Rightarrow> error + CbsdGrantInformation list" where
  "findGrantsInsideNeighborhood_loop env [] protection_point et grants_inside = Inr grants_inside"
| "findGrantsInsideNeighborhood_loop env (grant # rest) protection_point et grants_inside =
     (let dist_km = fst (GeodesicDistanceBearing env (latitude grant) (longitude grant)
                          (fst protection_point) (snd protection_point))
      in case DISTANCE_PER_PROTECTION_TYPE et of
           None \<Rightarrow> Inl KeyError
         | Some radii \<Rightarrow>
             if dist_km \<le> index_bool radii (cbsd_category grant = ''B'')
             then findGrantsInsideNeighborhood_loop env rest protection_point et (grants_inside @ [grant])
             else findGrantsInsideNeighborhood_loop env rest protection_point et grants_inside)"

definition findGrantsInsideNeighborhood ::
  "collaborators \<Rightarrow> CbsdGrantInformation list \<Rightarrow> real \<times> real \<Rightarrow> pyobj
     \<Rightarrow> error + CbsdGrantInformation list" where
  "findGrantsInsideNeighborhood env gs protection_point et =
     findGrantsInsideNeighborhood_loop env gs protection_point et []"

text \<open>
  In \<^verbatim>\<open>findOverlappingGrants\<close> the test that guards the category-A rule compares the
  member \<^verbatim>\<open>ProtectedEntityType.ESC\<close> with the value looked up in the distance table,
  which is a pair of distances.
\<close>

fun findOverlappingGrants_loop ::
  "CbsdGrantInformation list \<Rightarrow> ProtectionConstraint \<Rightarrow> CbsdGrantInformation list
     \<Rightarrow> error + CbsdGrantInformation list" where
  "findOverlappingGrants_loop [] constraint grants_inside = Inr grants_inside"
| "findOverlappingGrants_loop (grant # rest) constraint grants_inside =
     (let overlapping_bw = min (high_frequency grant) (pc_high_frequency constraint)
                             - max (low_frequency grant) (pc_low_frequency constraint);
          freq_check = (overlapping_bw > 0)
      in case DISTANCE_PER_PROTECTION_TYPE (entity_type constraint) of
           None \<Rightarrow> Inl KeyError
         | Some radii \<Rightarrow>
             let freq_check' =
                   (if Member ESC = Tuple2 (fst radii) (snd radii) then
                      (if cbsd_category grant = ''A''
                            \<and> pc_high_frequency constraint > ESC_CAT_A_HIGH_FREQ_HZ
                       then False else freq_check)
                    else freq_check)
             in if freq_check'
                then findOverlappingGrants_loop rest constraint (grants_inside @ [grant])
                else findOverlappingGrants_loop rest constraint grants_inside)"

definition findOverlappingGrants ::
  "CbsdGrantInformation list \<Rightarrow> ProtectionConstraint \<Rightarrow> error + CbsdGrantInformation list" where
  "findOverlappingGrants gs constraint = findOverlappingGrants_loop gs constraint []"

section \<open>Record extraction\<close>

text \<open>
  The CBSD data records of a FAD dump, as the schema gives them: every key the
  extraction reads is present and has the type the formulas expect.
\<close>

record InstallationParam =
  ip_latitude :: real
  ip_longitude :: real
  ip_height :: real
  heightType :: string
  indoorDeployment :: bool
  antennaAzimuth :: real
  antennaGain :: real
  antennaBeamwidth :: real

record RegistrationRequest =
  installationParam :: InstallationParam
  cbsdCategory :: string

record FrequencyRange =
  lowFrequency :: real
  highFrequency :: real

record OperationParam =
  maxEirp :: real
  operationFrequencyRange :: FrequencyRange

record GrantData =
  operationParam :: OperationParam

record CbsdData =
  registrationRequest :: RegistrationRequest
  cbsd_grants :: "GrantData list"

record FullActivityDump =
  getCbsdRecords :: "CbsdData list"

definition make_cbsd_grant ::
  "RegistrationRequest \<Rightarrow> real \<Rightarrow> real \<Rightarrow> real \<Rightarrow> bool \<Rightarrow> GrantData \<Rightarrow> CbsdGrantInformation" where
  "make_cbsd_grant registration lat_cbsd lon_cbsd height_cbsd is_managing_sas grant =
     \<lparr> latitude = lat_cbsd,
       longitude = lon_cbsd,
       height_agl = height_cbsd,
       indoor_deployment = indoorDeployment (installationParam registration),
       antenna_azimuth = antennaAzimuth (installationParam registration),
       antenna_gain = antennaGain (installationParam registration),
       antenna_beamwidth = antennaBeamwidth (installationParam registration),
       cbsd_category = cbsdCategory registration,
       max_eirp = maxEirp (operationParam grant),
       low_frequency = lowFrequency (operationFrequencyRange (operationParam grant)),
       high_frequency = highFrequency (operationFrequencyRange (operationParam grant)),
       is_managed_grant = is_managing_sas \<rparr>"

fun getAllGrantInformationFromCbsdDataDump_loop ::
  "collaborators \<Rightarrow> CbsdData list \<Rightarrow> bool \<Rightarrow> CbsdGrantInformation list
     \<Rightarrow> error + CbsdGrantInformation list" where
  "getAllGrantInformationFromCbsdDataDump_loop env [] is_managing_sas grant_objects =
     Inr grant_objects"
| "getAllGrantInformationFromCbsdDataDump_loop env (cbsd_data_record # rest) is_managing_sas
       grant_objects =
     (let registration = registrationRequest cbsd_data_record;
          lat_cbsd = ip_latitude (installationParam registration);
          lon_cbsd = ip_longitude (installationParam registration);
          height_given = ip_height (installationParam registration);
          height_type_cbsd = heightType (installationParam registration);
          height_cbsd =
            (if height_type_cbsd = ''AMSL''
             then height_given - GetTerrainElevation env lat_cbsd lon_cbsd
             else height_given)
      in if height_cbsd < 1 \<or> height_cbsd > 1000 then Inl ValueError
         else getAllGrantInformationFromCbsdDataDump_loop env rest is_managing_sas
                (foldl (\<lambda>acc grant. acc @
                          [make_cbsd_grant registration lat_cbsd lon_cbsd height_cbsd
                             is_managing_sas grant])
                   grant_objects (cbsd_grants cbsd_data_record)))"

definition getAllGrantInformationFromCbsdDataDump ::
  "collaborators \<Rightarrow> CbsdData list \<Rightarrow> bool \<Rightarrow> error + CbsdGrantInformation list" where
  "getAllGrantInformationFromCbsdDataDump env cbsd_data_records is_managing_sas =
     getAllGrantInformationFromCbsdDataDump_loop env cbsd_data_records is_managing_sas []"

text \<open>
  \<^verbatim>\<open>getGrantObjectsFromFAD\<close>: the local \<^verbatim>\<open>grant_objects_test_harness\<close> is assigned only
  in the body of the inner loop, once per record, from the records collected so far.
  The state both iterations share is the list \<^verbatim>\<open>cbsd_list_th\<close> and that local, \<open>None\<close> while
  it is unbound.
\<close>

type_synonym th_state = "CbsdData list \<times> CbsdGrantInformation list option"

fun th_records_loop :: "collaborators \<Rightarrow> CbsdData list \<Rightarrow> th_state \<Rightarrow> error + th_state" where
  "th_records_loop env [] st = Inr st"
| "th_records_loop env (cbsds # rest) st =
     (let cbsd_list_th = fst st @ [cbsds]
      in case getAllGrantInformationFromCbsdDataDump env cbsd_list_th False of
           Inl e \<Rightarrow> Inl e
         | Inr grant_objects_test_harness \<Rightarrow>
             th_records_loop env rest (cbsd_list_th, Some grant_objects_test_harness))"

fun th_fads_loop :: "collaborators \<Rightarrow> FullActivityDump list \<Rightarrow> th_state \<Rightarrow> error + th_state" where
  "th_fads_loop env [] st = Inr st"
| "th_fads_loop env (fad # rest) st =
     (case th_records_loop env (getCbsdRecords fad) st of
        Inl e \<Rightarrow> Inl e
      | Inr st' \<Rightarrow> th_fads_loop env rest st')"

definition getGrantObjectsFromFAD ::
  "collaborators \<Rightarrow> FullActivityDump \<Rightarrow> FullActivityDump list
     \<Rightarrow> error + CbsdGrantInformation list" where
  "getGrantObjectsFromFAD env sas_uut_fad_object sas_th_fad_objects =
     (let cbsd_list_uut = foldl (\<lambda>acc cbsds. acc @ [cbsds]) [] (getCbsdRecords sas_uut_fad_object)
      in case getAllGrantInformationFromCbsdDataDump env cbsd_list_uut True of
           Inl e \<Rightarrow> Inl e
         | Inr grant_objects_uut \<Rightarrow>
             (case th_fads_loop env sas_th_fad_objects ([], None) of
                Inl e \<Rightarrow> Inl e
              | Inr st \<Rightarrow>
                  (case snd st of
                     None \<Rightarrow> Inl UnboundLocalError
                   | Some grant_objects_test_harness \<Rightarrow>
                       Inr (grant_objects_uut @ grant_objects_test_harness))))"

section \<open>Effective EIRP and the four interference formulas\<close>

text \<open>
  The optional argument \<^verbatim>\<open>reference_bandwidth\<close> is \<open>None\<close> when the caller leaves it
  out; its default is \<^verbatim>\<open>IAPBW_HZ\<close>.
\<close>

definition getEffectiveSystemEirp :: "real \<Rightarrow> real \<Rightarrow> real \<Rightarrow> real option \<Rightarrow> real" where
  "getEffectiveSystemEirp max_eirp' cbsd_max_ant_gain effective_ant_gain reference_bandwidth =
     (let rbw = (case reference_bandwidth of None \<Rightarrow> IAPBW_HZ | Some b \<Rightarrow> b)
      in (max_eirp' - cbsd_max_ant_gain) + effective_ant_gain + linearToDb (rbw / MHZ))"

text \<open>
  The propagation step of each formula: the loss, the incidence angles and the log of
  the propagation calls made to get them. The area-point formula tests for a grant
  at the position of the protection point first; the other three call the ITM model
  directly.
\<close>

definition itm_propagation ::
  "collaborators \<Rightarrow> CbsdGrantInformation \<Rightarrow> ProtectionConstraint \<Rightarrow> real
     \<Rightarrow> (real \<times> IncidenceAngles) \<times> propagation_call list" where
  "itm_propagation env cbsd_grant constraint h_rx =
     (CalcItmPropagationLoss env (latitude cbsd_grant) (longitude cbsd_grant)
        (height_agl cbsd_grant) (pc_latitude constraint) (pc_longitude constraint) h_rx
        (indoor_deployment cbsd_grant) (- 1) FREQ_PROP_MODEL_MHZ,
      [ItmCall (latitude cbsd_grant) (longitude cbsd_grant)
         (pc_latitude constraint) (pc_longitude constraint)])"

definition ppa_gwpz_propagation ::
  "collaborators \<Rightarrow> CbsdGrantInformation \<Rightarrow> ProtectionConstraint \<Rightarrow> real \<Rightarrow> string option
     \<Rightarrow> (real \<times> IncidenceAngles) \<times> propagation_call list" where
  "ppa_gwpz_propagation env cbsd_grant constraint h_inc_ant region =
     (if latitude cbsd_grant = pc_latitude constraint
           \<and> longitude cbsd_grant = pc_longitude constraint
      then ((0, \<lparr>hor_cbsd = 0, ver_cbsd = 0, hor_rx = 0, ver_rx = 0\<rparr>), [])
      else
        (CalcHybridPropagationLoss env (latitude cbsd_grant) (longitude cbsd_grant)
           (height_agl cbsd_grant) (pc_latitude constraint) (pc_longitude constraint) h_inc_ant
           (indoor_deployment cbsd_grant) (- 1) FREQ_PROP_MODEL_MHZ region,
         [HybridCall (latitude cbsd_grant) (longitude cbsd_grant)
            (pc_latitude constraint) (pc_longitude constraint)]))"

definition computeInterferencePpaGwpzPoint ::
  "collaborators \<Rightarrow> CbsdGrantInformation \<Rightarrow> ProtectionConstraint \<Rightarrow> real \<Rightarrow> real
     \<Rightarrow> string option \<Rightarrow> real \<times> propagation_call list" where
  "computeInterferencePpaGwpzPoint env cbsd_grant constraint h_inc_ant max_eirp' region =
     (let (prop, calls) = ppa_gwpz_propagation env cbsd_grant constraint h_inc_ant region;
          db_loss = fst prop;
          incidence_angles = snd prop;
          ant_gain = GetStandardAntennaGains env (hor_cbsd incidence_angles)
                       (antenna_azimuth cbsd_grant) (antenna_beamwidth cbsd_grant)
                       (antenna_gain cbsd_grant);
          eirp = getEffectiveSystemEirp max_eirp' (antenna_gain cbsd_grant) ant_gain None;
          interference = eirp - db_loss
      in (interference, calls))"

text \<open>
  The ESC and FSS formulas read attributes of the incumbent's record, which the
  dispatcher passes as \<^verbatim>\<open>None\<close> by default: reading an attribute of \<^verbatim>\<open>None\<close> raises.
\<close>

definition computeInterferenceEsc ::
  "collaborators \<Rightarrow> CbsdGrantInformation \<Rightarrow> ProtectionConstraint \<Rightarrow> EscInformation option
     \<Rightarrow> real \<Rightarrow> error + real \<times> propagation_call list" where
  "computeInterferenceEsc env cbsd_grant constraint esc_antenna_info max_eirp' =
     (case esc_antenna_info of
        None \<Rightarrow> Inl AttributeError
      | Some esc \<Rightarrow>
          let (prop, calls) = itm_propagation env cbsd_grant constraint (antenna_height esc);
              db_loss = fst prop;
              incidence_angles = snd prop;
              ant_gain = GetStandardAntennaGains env (hor_cbsd incidence_angles)
                           (antenna_azimuth cbsd_grant) (antenna_beamwidth cbsd_grant)
                           (antenna_gain cbsd_grant);
              esc_ant_gain = GetAntennaPatternGains env (hor_rx incidence_angles)
                               (esc_antenna_azimuth esc) (antenna_pattern_gain esc)
                               (esc_antenna_gain esc);
              effective_ant_gain = ant_gain + esc_ant_gain;
              eirp = getEffectiveSystemEirp max_eirp' (antenna_gain cbsd_grant)
                       effective_ant_gain None;
              interference = eirp - db_loss - IN_BAND_INSERTION_LOSS
          in Inr (interference, calls))"

definition computeInterferenceFssCochannel ::
  "collaborators \<Rightarrow> CbsdGrantInformation \<Rightarrow> ProtectionConstraint \<Rightarrow> FssProtectionPoint option
     \<Rightarrow> real \<Rightarrow> error + real \<times> propagation_call list" where
  "computeInterferenceFssCochannel env cbsd_grant constraint fss_info max_eirp' =
     (case fss_info of
        None \<Rightarrow> Inl AttributeError
      | Some fss \<Rightarrow>
          let (prop, calls) = itm_propagation env cbsd_grant constraint (fss_height_agl fss);
              db_loss = fst prop;
              incidence_angles = snd prop;
              ant_gain = GetStandardAntennaGains env (hor_cbsd incidence_angles)
                           (antenna_azimuth cbsd_grant) (antenna_beamwidth cbsd_grant)
                           (antenna_gain cbsd_grant);
              fss_ant_gain = GetFssAntennaGains env (hor_rx incidence_angles)
                               (ver_rx incidence_angles) (pointing_azimuth fss)
                               (pointing_elevation fss) (max_gain_dbi fss);
              effective_ant_gain = ant_gain + fss_ant_gain;
              eirp = getEffectiveSystemEirp max_eirp' (antenna_gain cbsd_grant)
                       effective_ant_gain None;
              interference = eirp - db_loss - IN_BAND_INSERTION_LOSS
          in Inr (interference, calls))"

definition computeInterferenceFssBlocking ::
  "collaborators \<Rightarrow> CbsdGrantInformation \<Rightarrow> ProtectionConstraint \<Rightarrow> FssProtectionPoint option
     \<Rightarrow> real \<Rightarrow> error + real \<times> propagation_call list" where
  "computeInterferenceFssBlocking env cbsd_grant constraint fss_info max_eirp' =
     (case fss_info of
        None \<Rightarrow> Inl AttributeError
      | Some fss \<Rightarrow>
          let (prop, calls) = itm_propagation env cbsd_grant constraint (fss_height_agl fss);
              db_loss = fst prop;
              incidence_angles = snd prop;
              ant_gain = GetStandardAntennaGains env (hor_cbsd incidence_angles)
                           (antenna_azimuth cbsd_grant) (antenna_beamwidth cbsd_grant)
                           (antenna_gain cbsd_grant);
              fss_ant_gain = GetFssAntennaGains env (hor_rx incidence_angles)
                               (ver_rx incidence_angles) (pointing_azimuth fss)
                               (pointing_elevation fss) (max_gain_dbi fss);
              effective_ant_gain = ant_gain + fss_ant_gain;
              eirp = getEffectiveSystemEirp max_eirp' (antenna_gain cbsd_grant)
                       effective_ant_gain
                       (Some (high_frequency cbsd_grant - low_frequency cbsd_grant));
              interference = eirp - getFssMaskLoss cbsd_grant constraint - db_loss
          in Inr (interference, calls))"

section \<open>Dispatcher\<close>

definition to_linear ::
  "error + real \<times> propagation_call list \<Rightarrow> error + real \<times> propagation_call list" where
  "to_linear r = (case r of Inl e \<Rightarrow> Inl e | Inr (x, calls) \<Rightarrow> Inr (dbToLinear x, calls))"

definition computeInterference ::
  "collaborators \<Rightarrow> CbsdGrantInformation \<Rightarrow> real \<Rightarrow> ProtectionConstraint
     \<Rightarrow> FssProtectionPoint option \<Rightarrow> EscInformation option \<Rightarrow> string option
     \<Rightarrow> error + real \<times> propagation_call list" where
  "computeInterference env grant eirp channel_constraint fss_info esc_antenna_info region_type =
     (if entity_type channel_constraint = Member FSS_CO_CHANNEL then
        to_linear (computeInterferenceFssCochannel env grant channel_constraint fss_info eirp)
      else if entity_type channel_constraint = Member FSS_BLOCKING then
        to_linear (computeInterferenceFssBlocking env grant channel_constraint fss_info eirp)
      else if entity_type channel_constraint = Member ESC then
        to_linear (computeInterferenceEsc env grant channel_constraint esc_antenna_info eirp)
      else
        to_linear (Inr (computeInterferencePpaGwpzPoint env grant channel_constraint
                          GWPZ_PPA_HEIGHT eirp region_type)))"

section \<open>Quantities and sample inputs used in the statements\<close>

text \<open>How many of the four conditions of \<^verbatim>\<open>getFssMaskLoss\<close> hold for a grant and a constraint.\<close>

definition mask_branches_applying :: "CbsdGrantInformation \<Rightarrow> ProtectionConstraint \<Rightarrow> nat" where
  "mask_branches_applying cbsd_grant constraint =
     length (filter (\<lambda>b. b)
       [mask_branch1 cbsd_grant constraint, mask_branch2 cbsd_grant constraint,
        mask_branch3 cbsd_grant constraint, mask_branch4 cbsd_grant constraint])"

text \<open>A grant and a constraint with the given position, frequency range and tag.\<close>

definition example_grant :: "real \<Rightarrow> real \<Rightarrow> real \<Rightarrow> real \<Rightarrow> string \<Rightarrow> CbsdGrantInformation" where
  "example_grant lat lon lo hi cat =
     \<lparr> latitude = lat, longitude = lon, height_agl = 10, indoor_deployment = False,
       antenna_azimuth = 0, antenna_gain = 6, antenna_beamwidth = 360, cbsd_category = cat,
       max_eirp = 30, low_frequency = lo, high_frequency = hi, is_managed_grant = True \<rparr>"

definition example_constraint :: "real \<Rightarrow> real \<Rightarrow> real \<Rightarrow> real \<Rightarrow> pyobj \<Rightarrow> ProtectionConstraint" where
  "example_constraint lat lon lo hi et =
     \<lparr> pc_latitude = lat, pc_longitude = lon, pc_low_frequency = lo, pc_high_frequency = hi,
       entity_type = et \<rparr>"

text \<open>
  The radius the specification gives for an entity type and a grant category: the same
  for both categories except for ESC, where category B has the larger one.
\<close>

definition spec_neighborhood_radius :: "ProtectedEntityType \<Rightarrow> string \<Rightarrow> real" where
  "spec_neighborhood_radius t category =
     (case t of
        GWPZ_AREA \<Rightarrow> 40
      | PPA_AREA \<Rightarrow> 40
      | FSS_CO_CHANNEL \<Rightarrow> 150
      | FSS_BLOCKING \<Rightarrow> 40
      | ESC \<Rightarrow> (if category = ''B'' then 80 else 40))"

text \<open>The distance the geodesic collaborator reports from a grant to a point.\<close>

definition grant_distance_km :: "collaborators \<Rightarrow> CbsdGrantInformation \<Rightarrow> real \<times> real \<Rightarrow> real" where
  "grant_distance_km env grant protection_point =
     fst (GeodesicDistanceBearing env (latitude grant) (longitude grant)
            (fst protection_point) (snd protection_point))"

text \<open>
  The height of a CBSD above ground as the extraction computes it, and the grants it
  builds from one record.
\<close>

definition normalized_height :: "collaborators \<Rightarrow> CbsdData \<Rightarrow> real" where
  "normalized_height env cbsd_data_record =
     (let ip = installationParam (registrationRequest cbsd_data_record)
      in if heightType ip = ''AMSL''
         then ip_height ip - GetTerrainElevation env (ip_latitude ip) (ip_longitude ip)
         else ip_height ip)"

definition record_grants :: "collaborators \<Rightarrow> bool \<Rightarrow> CbsdData \<Rightarrow> CbsdGrantInformation list" where
  "record_grants env is_managing_sas cbsd_data_record =
     map (make_cbsd_grant (registrationRequest cbsd_data_record)
            (ip_latitude (installationParam (registrationRequest cbsd_data_record)))
            (ip_longitude (installationParam (registrationRequest cbsd_data_record)))
            (normalized_height env cbsd_data_record) is_managing_sas)
         (cbsd_grants cbsd_data_record)"

text \<open>
  Collaborators with simple fixed outputs, and sample incumbent and dump records, for
  evaluating the functions on concrete inputs. The sample record has the fields of
  \<open>example_grant\<close> at the origin.
\<close>

definition example_collaborators :: collaborators where
  "example_collaborators =
     \<lparr> GeodesicDistanceBearing =
         (\<lambda>lat1 lon1 lat2 lon2. (100 * (\<bar>lat1 - lat2\<bar> + \<bar>lon1 - lon2\<bar>), 0, 0)),
       GetTerrainElevation = (\<lambda>lat lon. 100),
       CalcItmPropagationLoss =
         (\<lambda>lat1 lon1 h1 lat2 lon2 h2 indoor rel f.
            (120, \<lparr>hor_cbsd = 10, ver_cbsd = 0, hor_rx = 190, ver_rx = 0\<rparr>)),
       CalcHybridPropagationLoss =
         (\<lambda>lat1 lon1 h1 lat2 lon2 h2 indoor rel f region.
            (130, \<lparr>hor_cbsd = 10, ver_cbsd = 0, hor_rx = 190, ver_rx = 0\<rparr>)),
       GetStandardAntennaGains = (\<lambda>dir az bw gain. gain),
       GetAntennaPatternGains = (\<lambda>dir az pat gain. gain),
       GetFssAntennaGains = (\<lambda>hor ver az el gain. gain) \<rparr>"

definition example_record :: "real \<Rightarrow> string \<Rightarrow> (real \<times> real) list \<Rightarrow> CbsdData" where
  "example_record h ht ranges =
     \<lparr> registrationRequest =
         \<lparr> installationParam =
             \<lparr> ip_latitude = 0, ip_longitude = 0, ip_height = h, heightType = ht,
               indoorDeployment = False, antennaAzimuth = 0, antennaGain = 6,
               antennaBeamwidth = 360 \<rparr>,
           cbsdCategory = ''A'' \<rparr>,
       cbsd_grants =
         map (\<lambda>r. \<lparr> operationParam =
                      \<lparr> maxEirp = 30,
                        operationFrequencyRange =
                          \<lparr> lowFrequency = fst r, highFrequency = snd r \<rparr> \<rparr> \<rparr>) ranges \<rparr>"

definition example_fss :: FssProtectionPoint where
  "example_fss = \<lparr> fss_latitude = 1, fss_longitude = 1, fss_height_agl = 5, max_gain_dbi = 32,
                   pointing_azimuth = 180, pointing_elevation = 30 \<rparr>"

definition example_esc :: EscInformation where
  "example_esc = \<lparr> antenna_height = 25, esc_antenna_azimuth = 0, esc_antenna_gain = 0,
                   antenna_pattern_gain = [] \<rparr>"

section \<open>The blocking mask\<close>

text \<open>
  Claim C1, as the code has it. For a grant with low < high at most one of the four
  conditions holds, so the order of the chain never decides between two of them.
  The mask loss is 0.5 dB when the low edge of the protection passband is strictly
  below the low frequency of the grant; \<open>10 log10 (0.25 bw)\<close> when the grant ends
  below the offset; the sum of the two partial terms when the offset is strictly
  inside the grant; \<open>10 log10 (0.6 bw)\<close> when the grant lies strictly between the
  offset and the passband edge. Exactly one condition holds when the passband edge is
  below the grant, or the grant ends below the edge and neither of its ends is the
  offset.
\<close>

theorem getFssMaskLoss_branches:
  assumes "low_frequency g < high_frequency g"
  shows "mask_branches_applying g c \<le> 1
    \<and> (pc_low_frequency c < low_frequency g \<longrightarrow> getFssMaskLoss g c = 1 / 2)
    \<and> (high_frequency g < mask_offset c \<longrightarrow>
         getFssMaskLoss g c = 10 * log 10 ((1 / 4) * ((high_frequency g - low_frequency g) / MHZ)))
    \<and> (low_frequency g < mask_offset c \<and> mask_offset c < high_frequency g \<longrightarrow>
         getFssMaskLoss g c = 10 * log 10 ((1 / 4) * ((mask_offset c - low_frequency g) / MHZ))
                             + 10 * log 10 ((6 / 10) * ((high_frequency g - mask_offset c) / MHZ)))
    \<and> (mask_offset c < low_frequency g \<and> high_frequency g < pc_low_frequency c \<longrightarrow>
         getFssMaskLoss g c = 10 * log 10 ((6 / 10) * ((high_frequency g - low_frequency g) / MHZ)))
    \<and> (pc_low_frequency c < low_frequency g
         \<or> (high_frequency g < pc_low_frequency c \<and> low_frequency g \<noteq> mask_offset c
              \<and> high_frequency g \<noteq> mask_offset c)
        \<longrightarrow> mask_branches_applying g c = 1)"
  using assms
  by (auto simp: mask_branches_applying_def getFssMaskLoss_def Let_def linearToDb_def
       mask_branch1_def mask_branch2_def mask_branch3_def mask_branch4_def mask_offset_def
       mult.commute)

text \<open>
  A grant on 3640-3660 MHz against a passband starting at 3700 MHz: the offset,
  3650 MHz, is inside the grant, and the loss is the sum of the two partial terms.
\<close>

theorem getFssMaskLoss_branches_witness:
  "low_frequency (example_grant 0 0 3640000000 3660000000 ''B'')
     < high_frequency (example_grant 0 0 3640000000 3660000000 ''B'')
   \<and> mask_branches_applying (example_grant 0 0 3640000000 3660000000 ''B'')
       (example_constraint 1 1 3700000000 4200000000 (Member FSS_BLOCKING)) = 1
   \<and> getFssMaskLoss (example_grant 0 0 3640000000 3660000000 ''B'')
       (example_constraint 1 1 3700000000 4200000000 (Member FSS_BLOCKING))
     = 10 * log 10 (5 / 2) + 10 * log 10 6"
proof -
  have h: "low_frequency (example_grant 0 0 3640000000 3660000000 ''B'')
     < high_frequency (example_grant 0 0 3640000000 3660000000 ''B'')"
    by (simp add: example_grant_def)
  show ?thesis
    using h getFssMaskLoss_branches [OF h,
        of "example_constraint 1 1 3700000000 4200000000 (Member FSS_BLOCKING)"]
    by (simp add: example_grant_def example_constraint_def mask_offset_def MHZ_def)
qed

text \<open>
  Claim C1 as stated fails: a grant on 3590-3610 MHz has the passband's low edge,
  3600 MHz, within its range, yet none of the four conditions holds and the mask
  loss is the initial value 0, not 0.5 dB.
\<close>

theorem getFssMaskLoss_within_counterexample:
  "low_frequency (example_grant 0 0 3590000000 3610000000 ''A'')
     < high_frequency (example_grant 0 0 3590000000 3610000000 ''A'')
   \<and> low_frequency (example_grant 0 0 3590000000 3610000000 ''A'')
       \<le> pc_low_frequency (example_constraint 1 1 3600000000 4200000000 (Member FSS_BLOCKING))
   \<and> pc_low_frequency (example_constraint 1 1 3600000000 4200000000 (Member FSS_BLOCKING))
       \<le> high_frequency (example_grant 0 0 3590000000 3610000000 ''A'')
   \<and> mask_branches_applying (example_grant 0 0 3590000000 3610000000 ''A'')
       (example_constraint 1 1 3600000000 4200000000 (Member FSS_BLOCKING)) = 0
   \<and> getFssMaskLoss (example_grant 0 0 3590000000 3610000000 ''A'')
       (example_constraint 1 1 3600000000 4200000000 (Member FSS_BLOCKING)) = 0"
  by (simp add: example_grant_def example_constraint_def mask_branches_applying_def
       getFssMaskLoss_def Let_def mask_branch1_def mask_branch2_def mask_branch3_def
       mask_branch4_def mask_offset_def)

section \<open>The channelizer\<close>

lemma zip_with_image: "zip xs (map f xs) = map (\<lambda>x. (x, f x)) xs"
  by (induction xs) simp_all

lemma getProtectedChannels_explicit:
  assumes "low < high"
  shows "getProtectedChannels low high =
     Inr (map (\<lambda>i. (max low (3550 * MHZ) + real i * (5 * MHZ),
                     max low (3550 * MHZ) + real (Suc i) * (5 * MHZ)))
            [0 ..< nat \<lceil>(min high (3700 * MHZ) - max low (3550 * MHZ)) / (5 * MHZ)\<rceil>])"
  using assms
  by (simp add: getProtectedChannels_def arange_def Let_def zip_with_image comp_def algebra_simps)

lemma channel_count_bounds:
  fixes d w :: real
  assumes "0 < d" "0 < w"
  shows "1 \<le> nat \<lceil>d / w\<rceil>"
    and "d \<le> real (nat \<lceil>d / w\<rceil>) * w"
    and "real (nat \<lceil>d / w\<rceil>) * w < d + w"
    and "real (nat \<lceil>d / w\<rceil>) * w = d \<longleftrightarrow> d / w \<in> \<int>"
proof -
  define c where "c = \<lceil>d / w\<rceil>"
  have pos: "0 < d / w" using assms by simp
  have lo: "d / w \<le> of_int c" unfolding c_def by linarith
  have hi: "of_int c < d / w + 1" unfolding c_def by linarith
  have c1: "1 \<le> c" using pos lo by linarith
  have r: "real (nat c) = of_int c" using c1 by simp
  have dw: "d / w * w = d" using assms(2) by simp
  show "1 \<le> nat \<lceil>d / w\<rceil>" using c1 unfolding c_def by linarith
  have "d / w * w \<le> of_int c * w"
    using lo assms(2) by (intro mult_right_mono) simp_all
  then show "d \<le> real (nat \<lceil>d / w\<rceil>) * w"
    using r dw unfolding c_def by simp
  have "of_int c * w < (d / w + 1) * w"
    using hi assms(2) by (rule mult_strict_right_mono)
  moreover have "(d / w + 1) * w = d + w" using dw by (simp add: distrib_right)
  ultimately show "real (nat \<lceil>d / w\<rceil>) * w < d + w"
    using r unfolding c_def by simp
  show "real (nat \<lceil>d / w\<rceil>) * w = d \<longleftrightarrow> d / w \<in> \<int>"
  proof
    assume "real (nat \<lceil>d / w\<rceil>) * w = d"
    then have "d / w = real (nat \<lceil>d / w\<rceil>)" using assms(2) by (simp add: field_simps)
    then show "d / w \<in> \<int>" by (metis Ints_of_nat)
  next
    assume "d / w \<in> \<int>"
    then obtain k :: int where k: "d / w = of_int k" by (auto elim: Ints_cases)
    have "of_int c = d / w" unfolding c_def k by simp
    then have "real (nat c) * w = d / w * w" using r by simp
    then show "real (nat \<lceil>d / w\<rceil>) * w = d" using dw unfolding c_def by simp
  qed
qed

text \<open>
  Claim C2, as the code has it. For a range with low < high that meets the band, with
  \<open>s = max low 3550 MHz\<close> and \<open>e = min high 3700 MHz\<close>, the result is the sequence of
  the \<open>n = \<lceil>(e - s) / 5 MHz\<rceil>\<close> channels \<open>(s + 5i MHz, s + 5(i+1) MHz)\<close>: it is not empty,
  starts at \<open>s\<close>, every channel including the last is exactly 5 MHz wide, each channel
  starts where the one before ends, and the last channel ends at or above \<open>e\<close>, less
  than 5 MHz above it, and at \<open>e\<close> exactly when \<open>e - s\<close> is a multiple of 5 MHz. The
  result is a function of the two arguments alone.
\<close>

theorem getProtectedChannels_partition:
  assumes "low < high" "low < 3700 * MHZ" "high > 3550 * MHZ"
  shows "let s = max low (3550 * MHZ); e = min high (3700 * MHZ);
             n = nat \<lceil>(e - s) / (5 * MHZ)\<rceil>;
             chs = map (\<lambda>i. (s + real i * (5 * MHZ), s + real (Suc i) * (5 * MHZ))) [0 ..< n]
         in getProtectedChannels low high = Inr chs
            \<and> 1 \<le> n
            \<and> fst (hd chs) = s
            \<and> (\<forall>i < n. snd (chs ! i) - fst (chs ! i) = 5 * MHZ)
            \<and> (\<forall>i. Suc i < n \<longrightarrow> fst (chs ! Suc i) = snd (chs ! i))
            \<and> e \<le> snd (last chs)
            \<and> snd (last chs) < e + 5 * MHZ
            \<and> (snd (last chs) = e \<longleftrightarrow> (e - s) / (5 * MHZ) \<in> \<int>)"
proof -
  define s where "s = max low (3550 * MHZ)"
  define e where "e = min high (3700 * MHZ)"
  define n where "n = nat \<lceil>(e - s) / (5 * MHZ)\<rceil>"
  define chs where
    "chs = map (\<lambda>i. (s + real i * (5 * MHZ), s + real (Suc i) * (5 * MHZ))) [0 ..< n]"
  have w: "0 < 5 * MHZ" by (simp add: MHZ_def)
  have d: "0 < e - s" using assms unfolding s_def e_def MHZ_def by (simp add: min_def max_def)
  have n1: "1 \<le> n" using channel_count_bounds(1)[OF d w] unfolding n_def .
  have cover: "e - s \<le> real n * (5 * MHZ)"
    using channel_count_bounds(2)[OF d w] unfolding n_def .
  have over: "real n * (5 * MHZ) < e - s + 5 * MHZ"
    using channel_count_bounds(3)[OF d w] unfolding n_def .
  have exact: "real n * (5 * MHZ) = e - s \<longleftrightarrow> (e - s) / (5 * MHZ) \<in> \<int>"
    using channel_count_bounds(4)[OF d w] unfolding n_def .
  have res: "getProtectedChannels low high = Inr chs"
    using getProtectedChannels_explicit[OF assms(1)] unfolding chs_def n_def s_def e_def .
  have ne: "chs \<noteq> []" using n1 unfolding chs_def by simp
  have hd: "fst (hd chs) = s"
    using n1 unfolding chs_def by (simp add: hd_map upt_conv_Cons)
  have nth: "\<And>i. i < n \<Longrightarrow> chs ! i = (s + real i * (5 * MHZ), s + real (Suc i) * (5 * MHZ))"
    unfolding chs_def by simp
  have width: "\<forall>i < n. snd (chs ! i) - fst (chs ! i) = 5 * MHZ"
    by (simp add: nth algebra_simps)
  have contig: "\<forall>i. Suc i < n \<longrightarrow> fst (chs ! Suc i) = snd (chs ! i)"
    by (simp add: nth)
  have "last chs = chs ! (n - 1)" using ne unfolding chs_def by (simp add: last_conv_nth)
  then have "snd (last chs) = s + real (Suc (n - 1)) * (5 * MHZ)" using n1 nth by simp
  then have lst: "snd (last chs) = s + real n * (5 * MHZ)" using n1 by simp
  have l1: "e \<le> snd (last chs)" using cover lst by simp
  have l2: "snd (last chs) < e + 5 * MHZ" using over lst by simp
  have l3: "snd (last chs) = e \<longleftrightarrow> (e - s) / (5 * MHZ) \<in> \<int>"
    using exact lst by auto
  show ?thesis
    unfolding Let_def
    using res n1 hd width contig l1 l2 l3
    unfolding chs_def n_def s_def e_def by blast
qed

text \<open>
  A range of 3545-3562 MHz is clipped to 3550-3562 MHz and gives three channels of
  5 MHz, the last one ending at 3565 MHz.
\<close>

theorem getProtectedChannels_partition_witness:
  "(3545000000 :: real) < 3562000000 \<and> (3545000000 :: real) < 3700 * MHZ
   \<and> (3562000000 :: real) > 3550 * MHZ
   \<and> getProtectedChannels 3545000000 3562000000
       = Inr [(3550000000, 3555000000), (3555000000, 3560000000), (3560000000, 3565000000)]"
proof -
  have h1: "(3545000000 :: real) < 3562000000" by simp
  have h2: "(3545000000 :: real) < 3700 * MHZ" by (simp add: MHZ_def)
  have h3: "(3562000000 :: real) > 3550 * MHZ" by (simp add: MHZ_def)
  have n: "nat \<lceil>(min 3562000000 (3700 * MHZ) - max 3545000000 (3550 * MHZ)) / (5 * MHZ)\<rceil> = 3"
    by (simp add: MHZ_def)
  have l: "[0 ..< 3] = [0, 1, 2 :: nat]" by (simp add: upt_rec)
  show ?thesis
    using h1 h2 h3 getProtectedChannels_partition [OF h1 h2 h3]
    unfolding Let_def n l
    by (simp add: MHZ_def)
qed

text \<open>
  Claim C2 as stated fails: for 3550-3552 MHz the clipped range is 2 MHz wide, and
  the single channel returned is the full 5 MHz (3550, 3555), not (3550, 3552).
\<close>

theorem getProtectedChannels_last_channel_counterexample:
  "getProtectedChannels 3550000000 3552000000 = Inr [(3550000000, 3555000000)]
   \<and> getProtectedChannels 3550000000 3552000000 \<noteq> Inr [(3550000000, 3552000000)]"
  by (simp add: getProtectedChannels_def arange_def MHZ_def)

section \<open>The neighborhood filter\<close>

lemma radius_lookup:
  "\<exists>radii. DISTANCE_PER_PROTECTION_TYPE (Member t) = Some radii
      \<and> index_bool radii (c = ''B'') = spec_neighborhood_radius t c"
  by (cases t)
     (simp_all add: index_bool_def spec_neighborhood_radius_def GWPZ_NEIGHBORHOOD_DIST_def
        PPA_NEIGHBORHOOD_DIST_def FSS_CO_CHANNEL_NEIGHBORHOOD_DIST_def
        FSS_BLOCKING_NEIGHBORHOOD_DIST_def ESC_NEIGHBORHOOD_DIST_A_def ESC_NEIGHBORHOOD_DIST_B_def)

lemma neighborhood_loop_filter:
  "findGrantsInsideNeighborhood_loop env gs pt (Member t) acc =
     Inr (acc @ filter (\<lambda>g. grant_distance_km env g pt \<le> spec_neighborhood_radius t (cbsd_category g)) gs)"
proof (induction gs arbitrary: acc)
  case Nil
  show ?case by simp
next
  case (Cons g gs)
  obtain radii where r: "DISTANCE_PER_PROTECTION_TYPE (Member t) = Some radii"
    and i: "index_bool radii (cbsd_category g = ''B'') = spec_neighborhood_radius t (cbsd_category g)"
    using radius_lookup by blast
  show ?case
    using Cons.IH by (simp add: r i Let_def grant_distance_km_def del: DISTANCE_PER_PROTECTION_TYPE.simps)
qed

text \<open>
  Claim C7. For each of the five entity types, \<^verbatim>\<open>findGrantsInsideNeighborhood\<close> returns
  the input grants, in their order, whose distance to the protection point is at most
  the radius of the table for the grant's category; a grant at exactly the radius is
  kept. For ESC the radius is 40 km for category A and 80 km for category B.
\<close>

theorem findGrantsInsideNeighborhood_filter:
  "findGrantsInsideNeighborhood env gs pt (Member t) =
     Inr (filter (\<lambda>g. grant_distance_km env g pt \<le> spec_neighborhood_radius t (cbsd_category g)) gs)
   \<and> spec_neighborhood_radius ESC ''A'' = 40
   \<and> spec_neighborhood_radius ESC ''B'' = 80"
  by (simp add: findGrantsInsideNeighborhood_def neighborhood_loop_filter spec_neighborhood_radius_def)

text \<open>
  Against an ESC point, with grants at 40 km and 50 km of category A and at 80 km and
  90 km of category B, the two at the radius of their category are returned.
\<close>

theorem findGrantsInsideNeighborhood_filter_witness:
  "findGrantsInsideNeighborhood example_collaborators
     [example_grant (2 / 5) 0 3550000000 3560000000 ''A'',
      example_grant (1 / 2) 0 3550000000 3560000000 ''A'',
      example_grant (4 / 5) 0 3550000000 3560000000 ''B'',
      example_grant (9 / 10) 0 3550000000 3560000000 ''B'']
     (0, 0) (Member ESC)
   = Inr [example_grant (2 / 5) 0 3550000000 3560000000 ''A'',
          example_grant (4 / 5) 0 3550000000 3560000000 ''B'']"
  using findGrantsInsideNeighborhood_filter [of example_collaborators
     "[example_grant (2 / 5) 0 3550000000 3560000000 ''A'',
      example_grant (1 / 2) 0 3550000000 3560000000 ''A'',
      example_grant (4 / 5) 0 3550000000 3560000000 ''B'',
      example_grant (9 / 10) 0 3550000000 3560000000 ''B'']" "(0, 0)" ESC]
  by (simp add: grant_distance_km_def example_collaborators_def example_grant_def spec_neighborhood_radius_def)

section \<open>The frequency-overlap filter\<close>

text \<open>
  For a constraint whose tag is any member of the enumeration the result is the grants
  with positive overlap, whatever their category.
\<close>

lemma overlap_loop_filter:
  "findOverlappingGrants_loop gs c acc =
     (if gs = [] then Inr acc
      else case DISTANCE_PER_PROTECTION_TYPE (entity_type c) of
             None \<Rightarrow> Inl KeyError
           | Some radii \<Rightarrow>
               Inr (acc @ filter (\<lambda>g. min (high_frequency g) (pc_high_frequency c)
                                          - max (low_frequency g) (pc_low_frequency c) > 0) gs))"
proof (induction gs arbitrary: acc)
  case Nil
  show ?case by simp
next
  case (Cons g gs)
  show ?case
    by (cases "DISTANCE_PER_PROTECTION_TYPE (entity_type c)")
       (simp_all add: Cons.IH Let_def del: DISTANCE_PER_PROTECTION_TYPE.simps)
qed

lemma findOverlappingGrants_member:
  "entity_type c = Member t \<Longrightarrow>
     findOverlappingGrants gs c =
       Inr (filter (\<lambda>g. min (high_frequency g) (pc_high_frequency c)
                            - max (low_frequency g) (pc_low_frequency c) > 0) gs)"
  unfolding findOverlappingGrants_def overlap_loop_filter
  by (cases t) simp_all

text \<open>
  Claim C3 on the code: an ESC constraint on 3660-3670 MHz has its high frequency
  above 3660 MHz, and the category-A grant on 3650-3670 MHz that overlaps it is
  returned, not excluded: the guard of the exclusion compares a member of the
  enumeration with a pair of distances and is never true.
\<close>

theorem findOverlappingGrants_esc_category_a_kept:
  "cbsd_category (example_grant 0 0 3650000000 3670000000 ''A'') = ''A''
   \<and> entity_type (example_constraint 1 1 3660000000 3670000000 (Member ESC)) = Member ESC
   \<and> pc_high_frequency (example_constraint 1 1 3660000000 3670000000 (Member ESC)) > ESC_CAT_A_HIGH_FREQ_HZ
   \<and> findOverlappingGrants [example_grant 0 0 3650000000 3670000000 ''A'']
       (example_constraint 1 1 3660000000 3670000000 (Member ESC))
     = Inr [example_grant 0 0 3650000000 3670000000 ''A'']"
  by (simp add: findOverlappingGrants_def example_grant_def example_constraint_def
       ESC_CAT_A_HIGH_FREQ_HZ_def Let_def)

section \<open>Record extraction\<close>

lemma foldl_append_map: "foldl (\<lambda>acc x. acc @ [f x]) acc xs = acc @ map f xs"
  by (induction xs arbitrary: acc) simp_all

lemma extraction_loop_step:
  "getAllGrantInformationFromCbsdDataDump_loop env (r # rs) flag acc =
     (if normalized_height env r < 1 \<or> normalized_height env r > 1000 then Inl ValueError
      else getAllGrantInformationFromCbsdDataDump_loop env rs flag (acc @ record_grants env flag r))"
  by (simp add: Let_def foldl_append_map normalized_height_def record_grants_def)

lemma extraction_loop:
  "getAllGrantInformationFromCbsdDataDump_loop env records flag acc =
     (if \<exists>r \<in> set records. normalized_height env r < 1 \<or> normalized_height env r > 1000
      then Inl ValueError
      else Inr (acc @ concat (map (record_grants env flag) records)))"
proof (induction records arbitrary: acc)
  case Nil
  show ?case by simp
next
  case (Cons r rs)
  show ?case
    unfolding extraction_loop_step Cons.IH by auto
qed

text \<open>
  Claim C8, as the code has it. If some record of the input has a terrain-normalized
  antenna height below 1 m or above 1000 m, the extraction fails with
  \<^verbatim>\<open>ValueError\<close> and returns nothing. If every height is within 1 to 1000 m it
  returns the grants of all records in order, each carrying the height computed and
  the low and high frequency exactly as the dump has them: the frequency range is
  not examined.
\<close>

theorem extraction_height_checked_only:
  "((\<exists>r \<in> set records. normalized_height env r < 1 \<or> normalized_height env r > 1000) \<longrightarrow>
       getAllGrantInformationFromCbsdDataDump env records flag = Inl ValueError)
   \<and> ((\<forall>r \<in> set records. 1 \<le> normalized_height env r \<and> normalized_height env r \<le> 1000) \<longrightarrow>
       getAllGrantInformationFromCbsdDataDump env records flag
         = Inr (concat (map (record_grants env flag) records)))
   \<and> low_frequency (make_cbsd_grant reg lat lon h flag g)
       = lowFrequency (operationFrequencyRange (operationParam g))
   \<and> high_frequency (make_cbsd_grant reg lat lon h flag g)
       = highFrequency (operationFrequencyRange (operationParam g))
   \<and> height_agl (make_cbsd_grant reg lat lon h flag g) = h"
  by (auto simp: getAllGrantInformationFromCbsdDataDump_def extraction_loop make_cbsd_grant_def
        not_less not_le)

text \<open>
  With the terrain at 100 m, a record at 1105 m AMSL is 1005 m above ground and makes
  the extraction fail, also after a record that is in range; a record at 101 m AMSL
  is 1 m above ground and is accepted.
\<close>

theorem extraction_height_checked_only_witness:
  "getAllGrantInformationFromCbsdDataDump example_collaborators
       [example_record 10 ''AGL'' [(3550000000, 3560000000)],
        example_record 1105 ''AMSL'' [(3550000000, 3560000000)]] True = Inl ValueError
   \<and> getAllGrantInformationFromCbsdDataDump example_collaborators
       [example_record 101 ''AMSL'' [(3550000000, 3560000000)]] True
     = Inr [(example_grant 0 0 3550000000 3560000000 ''A'') \<lparr> height_agl := 1 \<rparr>]"
proof -
  have bad: "\<exists>r \<in> set [example_record 10 ''AGL'' [(3550000000, 3560000000)],
                 example_record 1105 ''AMSL'' [(3550000000, 3560000000)]].
       normalized_height example_collaborators r < 1
         \<or> normalized_height example_collaborators r > 1000"
    by (simp add: normalized_height_def example_record_def example_collaborators_def)
  have good: "\<forall>r \<in> set [example_record 101 ''AMSL'' [(3550000000, 3560000000)]].
         1 \<le> normalized_height example_collaborators r
           \<and> normalized_height example_collaborators r \<le> 1000"
    by (simp add: normalized_height_def example_record_def example_collaborators_def)
  have g: "record_grants example_collaborators True
             (example_record 101 ''AMSL'' [(3550000000, 3560000000)])
           = [(example_grant 0 0 3550000000 3560000000 ''A'') \<lparr> height_agl := 1 \<rparr>]"
    by (simp add: record_grants_def normalized_height_def example_record_def
          example_collaborators_def make_cbsd_grant_def example_grant_def)
  show ?thesis
    using bad good g
      extraction_height_checked_only [of
        "[example_record 10 ''AGL'' [(3550000000, 3560000000)],
          example_record 1105 ''AMSL'' [(3550000000, 3560000000)]]" example_collaborators True]
      extraction_height_checked_only [of
        "[example_record 101 ''AMSL'' [(3550000000, 3560000000)]]" example_collaborators True]
    by simp
qed

text \<open>
  Claim C8 as stated fails: a record in range whose grant has low frequency 3600 MHz
  and high frequency 3590 MHz is extracted, the range unchanged.
\<close>

theorem extraction_frequency_counterexample:
  "getAllGrantInformationFromCbsdDataDump example_collaborators
     [example_record 10 ''AGL'' [(3600000000, 3590000000)]] True
   = Inr [example_grant 0 0 3600000000 3590000000 ''A'']
   \<and> low_frequency (example_grant 0 0 3600000000 3590000000 ''A'')
       \<ge> high_frequency (example_grant 0 0 3600000000 3590000000 ''A'')"
  by (simp add: getAllGrantInformationFromCbsdDataDump_def example_record_def
        example_collaborators_def make_cbsd_grant_def example_grant_def Let_def)

lemma th_fads_loop_no_records:
  "\<forall>fad \<in> set ths. getCbsdRecords fad = [] \<Longrightarrow> th_fads_loop env ths st = Inr st"
  by (induction ths arbitrary: st) simp_all

text \<open>
  Claim C10. When the grants of the SAS under test are extracted and no test-harness
  dump has a CBSD record (in particular when there is no test-harness dump),
  \<^verbatim>\<open>getGrantObjectsFromFAD\<close> fails on reading the local that was never assigned,
  instead of returning those grants.
\<close>

theorem getGrantObjectsFromFAD_unbound:
  assumes "getAllGrantInformationFromCbsdDataDump env (getCbsdRecords uut) True = Inr gs"
    and "\<forall>fad \<in> set ths. getCbsdRecords fad = []"
  shows "getGrantObjectsFromFAD env uut ths = Inl UnboundLocalError"
  using assms foldl_append_map [of "\<lambda>x. x" "[]" "getCbsdRecords uut"]
  by (simp add: getGrantObjectsFromFAD_def th_fads_loop_no_records Let_def)

text \<open>One record under test, and either one empty test-harness dump or none.\<close>

theorem getGrantObjectsFromFAD_unbound_witness:
  "getAllGrantInformationFromCbsdDataDump example_collaborators
     (getCbsdRecords \<lparr> getCbsdRecords = [example_record 10 ''AGL'' [(3550000000, 3560000000)]] \<rparr>) True
     = Inr [example_grant 0 0 3550000000 3560000000 ''A'']
   \<and> getGrantObjectsFromFAD example_collaborators
       \<lparr> getCbsdRecords = [example_record 10 ''AGL'' [(3550000000, 3560000000)]] \<rparr>
       [\<lparr> getCbsdRecords = [] \<rparr>] = Inl UnboundLocalError
   \<and> getGrantObjectsFromFAD example_collaborators
       \<lparr> getCbsdRecords = [example_record 10 ''AGL'' [(3550000000, 3560000000)]] \<rparr>
       [] = Inl UnboundLocalError"
proof -
  have h1: "getAllGrantInformationFromCbsdDataDump example_collaborators
     (getCbsdRecords \<lparr> getCbsdRecords = [example_record 10 ''AGL'' [(3550000000, 3560000000)]] \<rparr>) True
     = Inr [example_grant 0 0 3550000000 3560000000 ''A'']"
    by (simp add: getAllGrantInformationFromCbsdDataDump_def example_record_def
        example_collaborators_def make_cbsd_grant_def example_grant_def Let_def)
  have h2: "\<forall>fad \<in> set [\<lparr> getCbsdRecords = [] \<rparr>]. getCbsdRecords fad = []" by simp
  have h3: "\<forall>fad \<in> set ([] :: FullActivityDump list). getCbsdRecords fad = []" by simp
  show ?thesis
    using h1 h2 getGrantObjectsFromFAD_unbound [OF h1 h2] getGrantObjectsFromFAD_unbound [OF h1 h3]
    by simp
qed


section \<open>Effective EIRP\<close>

lemma itm_propagation_calls:
  "snd (itm_propagation env g c h) =
     [ItmCall (latitude g) (longitude g) (pc_latitude c) (pc_longitude c)]"
  by (simp add: itm_propagation_def)

lemma itm_propagation_result:
  "fst (itm_propagation env g c h) =
     CalcItmPropagationLoss env (latitude g) (longitude g) (height_agl g)
       (pc_latitude c) (pc_longitude c) h (indoor_deployment g) (- 1) FREQ_PROP_MODEL_MHZ"
  by (simp add: itm_propagation_def)

lemma linearToDb_double:
  assumes "0 < b"
  shows "linearToDb (2 * b / MHZ) = linearToDb (b / MHZ) + 10 * log 10 2"
proof -
  have pos: "0 < b / MHZ" using assms by (simp add: MHZ_def)
  have two: "(0 :: real) < 2" by simp
  have "linearToDb (2 * b / MHZ) = 10 * log 10 (2 * (b / MHZ))"
    unfolding linearToDb_def by simp
  also have "\<dots> = 10 * (log 10 2 + log 10 (b / MHZ))"
    unfolding log_mult_pos [OF two pos] ..
  also have "\<dots> = linearToDb (b / MHZ) + 10 * log 10 2"
    unfolding linearToDb_def by (simp only: distrib_left add.commute)
  finally show ?thesis .
qed

lemma getEffectiveSystemEirp_double:
  assumes "0 < b"
  shows "getEffectiveSystemEirp e gmax geff (Some (2 * b))
           = getEffectiveSystemEirp e gmax geff (Some b) + 10 * log 10 2"
proof -
  have l: "getEffectiveSystemEirp e gmax geff (Some (2 * b))
             = (e - gmax) + geff + linearToDb (2 * b / MHZ)"
    unfolding getEffectiveSystemEirp_def Let_def option.case ..
  have r: "getEffectiveSystemEirp e gmax geff (Some b)
             = (e - gmax) + geff + linearToDb (b / MHZ)"
    unfolding getEffectiveSystemEirp_def Let_def option.case ..
  show ?thesis
    unfolding l r linearToDb_double [OF assms] by (rule add.assoc [symmetric])
qed

lemma computeInterferenceFssBlocking_unfold:
  "computeInterferenceFssBlocking env g c (Some fss) e =
     Inr (getEffectiveSystemEirp e (antenna_gain g)
            (GetStandardAntennaGains env
               (hor_cbsd (snd (fst (itm_propagation env g c (fss_height_agl fss)))))
               (antenna_azimuth g) (antenna_beamwidth g) (antenna_gain g)
             + GetFssAntennaGains env
                 (hor_rx (snd (fst (itm_propagation env g c (fss_height_agl fss)))))
                 (ver_rx (snd (fst (itm_propagation env g c (fss_height_agl fss)))))
                 (pointing_azimuth fss) (pointing_elevation fss) (max_gain_dbi fss))
            (Some (high_frequency g - low_frequency g))
          - getFssMaskLoss g c - fst (fst (itm_propagation env g c (fss_height_agl fss))),
          snd (itm_propagation env g c (fss_height_agl fss)))"
  unfolding computeInterferenceFssBlocking_def
  by (simp add: Let_def split_def)

text \<open>
  Claim C4. For a positive reference bandwidth \<open>b\<close>, \<^verbatim>\<open>getEffectiveSystemEirp\<close> is
  \<open>(max_eirp - cbsd_max_ant_gain) + effective_ant_gain + 10 log10 (b / 1 MHz)\<close>; leaving the
  bandwidth out is the same as passing 5 MHz; doubling it adds \<open>10 log10 2\<close>; and the
  blocking formula's value is the effective EIRP taken at the grant's own bandwidth,
  high frequency minus low frequency, less the mask loss and the propagation loss.
\<close>

theorem getEffectiveSystemEirp_formula:
  assumes "0 < b"
  shows "getEffectiveSystemEirp e gmax geff (Some b) = (e - gmax) + geff + 10 * log 10 (b / 1000000)
   \<and> getEffectiveSystemEirp e gmax geff None = getEffectiveSystemEirp e gmax geff (Some 5000000)
   \<and> getEffectiveSystemEirp e gmax geff (Some (2 * b))
       = getEffectiveSystemEirp e gmax geff (Some b) + 10 * log 10 2
   \<and> map_sum id fst (computeInterferenceFssBlocking env g c (Some fss) e)
       = Inr (getEffectiveSystemEirp e (antenna_gain g)
                (GetStandardAntennaGains env
                   (hor_cbsd (snd (fst (itm_propagation env g c (fss_height_agl fss)))))
                   (antenna_azimuth g) (antenna_beamwidth g) (antenna_gain g)
                 + GetFssAntennaGains env
                     (hor_rx (snd (fst (itm_propagation env g c (fss_height_agl fss)))))
                     (ver_rx (snd (fst (itm_propagation env g c (fss_height_agl fss)))))
                     (pointing_azimuth fss) (pointing_elevation fss) (max_gain_dbi fss))
                (Some (high_frequency g - low_frequency g))
              - getFssMaskLoss g c - fst (fst (itm_propagation env g c (fss_height_agl fss))))"
proof -
  have a: "getEffectiveSystemEirp e gmax geff (Some b)
             = (e - gmax) + geff + 10 * log 10 (b / 1000000)"
    by (simp add: getEffectiveSystemEirp_def linearToDb_def MHZ_def)
  have d: "getEffectiveSystemEirp e gmax geff None
             = getEffectiveSystemEirp e gmax geff (Some 5000000)"
    by (simp add: getEffectiveSystemEirp_def IAPBW_HZ_def)
  have f: "map_sum id fst (computeInterferenceFssBlocking env g c (Some fss) e)
       = Inr (getEffectiveSystemEirp e (antenna_gain g)
                (GetStandardAntennaGains env
                   (hor_cbsd (snd (fst (itm_propagation env g c (fss_height_agl fss)))))
                   (antenna_azimuth g) (antenna_beamwidth g) (antenna_gain g)
                 + GetFssAntennaGains env
                     (hor_rx (snd (fst (itm_propagation env g c (fss_height_agl fss)))))
                     (ver_rx (snd (fst (itm_propagation env g c (fss_height_agl fss)))))
                     (pointing_azimuth fss) (pointing_elevation fss) (max_gain_dbi fss))
                (Some (high_frequency g - low_frequency g))
              - getFssMaskLoss g c - fst (fst (itm_propagation env g c (fss_height_agl fss))))"
    unfolding computeInterferenceFssBlocking_unfold by (simp only: map_sum.simps fst_conv)
  show ?thesis
    using a d getEffectiveSystemEirp_double [OF assms, of e gmax geff] f
    by (intro conjI)
qed

text \<open>An allocated 30 dBm, nominal gain 6 dBi, effective gain 3 dBi, at 5 MHz and at 10 MHz.\<close>

theorem getEffectiveSystemEirp_formula_witness:
  "getEffectiveSystemEirp 30 6 3 (Some 10000000)
       = getEffectiveSystemEirp 30 6 3 None + 10 * log 10 2
   \<and> getEffectiveSystemEirp 30 6 3 None = 27 + 10 * log 10 5"
proof -
  have h: "(0 :: real) < 5000000" by simp
  show ?thesis
    using getEffectiveSystemEirp_formula [OF h, where e = 30 and gmax = 6 and geff = 3
        and env = example_collaborators and fss = example_fss
        and g = "example_grant 0 0 3550000000 3560000000 ''A''"
        and c = "example_constraint 1 1 3600000000 4200000000 (Member FSS_BLOCKING)"]
    by simp
qed


section \<open>The dispatcher\<close>

lemma computeInterferenceFssCochannel_unfold:
  "computeInterferenceFssCochannel env g c (Some fss) e =
     Inr (getEffectiveSystemEirp e (antenna_gain g)
            (GetStandardAntennaGains env
               (hor_cbsd (snd (fst (itm_propagation env g c (fss_height_agl fss)))))
               (antenna_azimuth g) (antenna_beamwidth g) (antenna_gain g)
             + GetFssAntennaGains env
                 (hor_rx (snd (fst (itm_propagation env g c (fss_height_agl fss)))))
                 (ver_rx (snd (fst (itm_propagation env g c (fss_height_agl fss)))))
                 (pointing_azimuth fss) (pointing_elevation fss) (max_gain_dbi fss))
            None
          - fst (fst (itm_propagation env g c (fss_height_agl fss))) - IN_BAND_INSERTION_LOSS,
          snd (itm_propagation env g c (fss_height_agl fss)))"
  unfolding computeInterferenceFssCochannel_def
  by (simp add: Let_def split_def)

lemma computeInterferenceEsc_unfold:
  "computeInterferenceEsc env g c (Some esc) e =
     Inr (getEffectiveSystemEirp e (antenna_gain g)
            (GetStandardAntennaGains env
               (hor_cbsd (snd (fst (itm_propagation env g c (antenna_height esc)))))
               (antenna_azimuth g) (antenna_beamwidth g) (antenna_gain g)
             + GetAntennaPatternGains env
                 (hor_rx (snd (fst (itm_propagation env g c (antenna_height esc)))))
                 (esc_antenna_azimuth esc) (antenna_pattern_gain esc) (esc_antenna_gain esc))
            None
          - fst (fst (itm_propagation env g c (antenna_height esc))) - IN_BAND_INSERTION_LOSS,
          snd (itm_propagation env g c (antenna_height esc)))"
  unfolding computeInterferenceEsc_def
  by (simp add: Let_def split_def)

lemma computeInterferencePpaGwpzPoint_unfold:
  "computeInterferencePpaGwpzPoint env g c h e r =
     (getEffectiveSystemEirp e (antenna_gain g)
        (GetStandardAntennaGains env
           (hor_cbsd (snd (fst (ppa_gwpz_propagation env g c h r))))
           (antenna_azimuth g) (antenna_beamwidth g) (antenna_gain g))
        None
      - fst (fst (ppa_gwpz_propagation env g c h r)),
      snd (ppa_gwpz_propagation env g c h r))"
  unfolding computeInterferencePpaGwpzPoint_def
  by (simp add: Let_def split_def)

lemma formula_without_incumbent:
  "computeInterferenceFssCochannel env g c None e = Inl AttributeError"
  "computeInterferenceFssBlocking env g c None e = Inl AttributeError"
  "computeInterferenceEsc env g c None e = Inl AttributeError"
  by (simp_all add: computeInterferenceFssCochannel_def computeInterferenceFssBlocking_def
        computeInterferenceEsc_def)

lemma to_linear_map: "to_linear r = map_sum id (map_prod dbToLinear id) r"
  by (cases r) (auto simp: to_linear_def)

text \<open>
  Claim C5, as the code has it. \<^verbatim>\<open>computeInterference\<close> has three tests and a final
  \<^verbatim>\<open>else\<close>: for the tags FSS_CO_CHANNEL, FSS_BLOCKING and ESC it returns what the
  matching formula returns, an error unchanged and a dB value \<open>x\<close> as \<open>10\<close> to the power
  \<open>x / 10\<close>; these formulas return a value whenever the incumbent's record is given.
  Every other tag, the two area members and any value outside the enumeration alike,
  takes the \<^verbatim>\<open>else\<close> branch: the result is the area-point formula's value converted
  the same way, and never an error.
\<close>

theorem computeInterference_dispatch:
  "(entity_type c = Member FSS_CO_CHANNEL \<longrightarrow>
      computeInterference env g e c fss esc r
        = map_sum id (map_prod dbToLinear id) (computeInterferenceFssCochannel env g c fss e))
   \<and> (entity_type c = Member FSS_BLOCKING \<longrightarrow>
      computeInterference env g e c fss esc r
        = map_sum id (map_prod dbToLinear id) (computeInterferenceFssBlocking env g c fss e))
   \<and> (entity_type c = Member ESC \<longrightarrow>
      computeInterference env g e c fss esc r
        = map_sum id (map_prod dbToLinear id) (computeInterferenceEsc env g c esc e))
   \<and> (entity_type c \<noteq> Member FSS_CO_CHANNEL \<and> entity_type c \<noteq> Member FSS_BLOCKING
        \<and> entity_type c \<noteq> Member ESC \<longrightarrow>
      computeInterference env g e c fss esc r
        = Inr (map_prod dbToLinear id
                 (computeInterferencePpaGwpzPoint env g c GWPZ_PPA_HEIGHT e r)))
   \<and> dbToLinear x = 10 powr (x / 10)
   \<and> \<not> isl (computeInterferenceFssCochannel env g c (Some f) e)
   \<and> \<not> isl (computeInterferenceFssBlocking env g c (Some f) e)
   \<and> \<not> isl (computeInterferenceEsc env g c (Some s) e)"
  by (simp add: computeInterference_def to_linear_map dbToLinear_def
        computeInterferenceFssCochannel_unfold computeInterferenceFssBlocking_unfold
        computeInterferenceEsc_unfold)

text \<open>
  With the sample collaborators (hybrid loss 130 dB, ITM loss 120 dB, gains equal to the
  nominal gain): a PPA constraint and an ESC constraint give the converted value of
  their formula, and an FSS constraint without its record gives the formula's error.
\<close>

theorem computeInterference_dispatch_witness:
  "computeInterference example_collaborators (example_grant 0 0 3550000000 3560000000 ''A'') 30
     (example_constraint 1 1 3550000000 3555000000 (Member PPA_AREA)) None None None
     = Inr (dbToLinear (30 + 10 * log 10 5 - 130), [HybridCall 0 0 1 1])
   \<and> computeInterference example_collaborators (example_grant 0 0 3550000000 3560000000 ''A'') 30
     (example_constraint 1 1 3550000000 3555000000 (Member ESC)) None (Some example_esc) None
     = Inr (dbToLinear (30 + 10 * log 10 5 - 120 - 1 / 2), [ItmCall 0 0 1 1])
   \<and> computeInterference example_collaborators (example_grant 0 0 3550000000 3560000000 ''A'') 30
     (example_constraint 1 1 3600000000 3605000000 (Member FSS_CO_CHANNEL)) None None None
     = Inl AttributeError"
  using computeInterference_dispatch [where env = example_collaborators
      and g = "example_grant 0 0 3550000000 3560000000 ''A''" and e = 30
      and c = "example_constraint 1 1 3550000000 3555000000 (Member PPA_AREA)"
      and fss = None and esc = None and r = None]
    computeInterference_dispatch [where env = example_collaborators
      and g = "example_grant 0 0 3550000000 3560000000 ''A''" and e = 30
      and c = "example_constraint 1 1 3550000000 3555000000 (Member ESC)"
      and fss = None and esc = "Some example_esc" and r = None]
    computeInterference_dispatch [where env = example_collaborators
      and g = "example_grant 0 0 3550000000 3560000000 ''A''" and e = 30
      and c = "example_constraint 1 1 3600000000 3605000000 (Member FSS_CO_CHANNEL)"
      and fss = None and esc = None and r = None]
  by (simp add: example_constraint_def example_grant_def example_collaborators_def example_esc_def
        computeInterferencePpaGwpzPoint_unfold computeInterferenceEsc_unfold
        formula_without_incumbent ppa_gwpz_propagation_def itm_propagation_def
        getEffectiveSystemEirp_def linearToDb_def IAPBW_HZ_def MHZ_def IN_BAND_INSERTION_LOSS_def)

text \<open>
  Claim C5 as stated fails: a constraint whose tag is not a member of the enumeration
  is answered with the area-point value, not with an error.
\<close>

theorem computeInterference_unknown_tag_counterexample:
  "computeInterference example_collaborators (example_grant 0 0 3550000000 3560000000 ''A'') 30
     (example_constraint 1 1 3550000000 3555000000 (Other ''RADAR'')) None None None
     = Inr (dbToLinear (30 + 10 * log 10 5 - 130), [HybridCall 0 0 1 1])"
  by (simp add: computeInterference_def to_linear_def
        example_constraint_def example_grant_def example_collaborators_def
        computeInterferencePpaGwpzPoint_unfold ppa_gwpz_propagation_def
        getEffectiveSystemEirp_def linearToDb_def IAPBW_HZ_def MHZ_def)

section \<open>Grant at the position of the protection point\<close>

text \<open>
  What each formula does in general: the area-point formula at a shared position takes
  zero loss and a zero angle and logs no call; the three ITM formulas log one call for
  every input.
\<close>

lemma area_point_co_located:
  assumes "latitude g = pc_latitude c" "longitude g = pc_longitude c"
  shows "computeInterferencePpaGwpzPoint env g c h e r =
     (getEffectiveSystemEirp e (antenna_gain g)
        (GetStandardAntennaGains env 0 (antenna_azimuth g) (antenna_beamwidth g) (antenna_gain g))
        None - 0, [])"
  unfolding computeInterferencePpaGwpzPoint_unfold
  using assms by (simp add: ppa_gwpz_propagation_def)

lemma itm_formulas_always_call:
  "map_sum id snd (computeInterferenceEsc env g c (Some esc) e)
     = Inr [ItmCall (latitude g) (longitude g) (pc_latitude c) (pc_longitude c)]"
  "map_sum id snd (computeInterferenceFssCochannel env g c (Some fss) e)
     = Inr [ItmCall (latitude g) (longitude g) (pc_latitude c) (pc_longitude c)]"
  "map_sum id snd (computeInterferenceFssBlocking env g c (Some fss) e)
     = Inr [ItmCall (latitude g) (longitude g) (pc_latitude c) (pc_longitude c)]"
  unfolding computeInterferenceEsc_unfold computeInterferenceFssCochannel_unfold
    computeInterferenceFssBlocking_unfold
  by (simp_all add: itm_propagation_calls)

text \<open>
  Claim C6 on the code: for a grant at the latitude and longitude of the constraint,
  the area-point formula makes no propagation call, while the ESC, FSS co-channel and
  FSS blocking formulas each call the ITM model for the two identical end points and
  use the loss it returns (120 dB here) instead of zero.
\<close>

theorem co_located_propagation_calls:
  "latitude (example_grant 1 1 3550000000 3560000000 ''A'')
     = pc_latitude (example_constraint 1 1 3550000000 3555000000 (Member ESC))
   \<and> longitude (example_grant 1 1 3550000000 3560000000 ''A'')
     = pc_longitude (example_constraint 1 1 3550000000 3555000000 (Member ESC))
   \<and> snd (computeInterferencePpaGwpzPoint example_collaborators
            (example_grant 1 1 3550000000 3560000000 ''A'')
            (example_constraint 1 1 3550000000 3555000000 (Member PPA_AREA))
            GWPZ_PPA_HEIGHT 30 None) = []
   \<and> map_sum id snd (computeInterferenceEsc example_collaborators
            (example_grant 1 1 3550000000 3560000000 ''A'')
            (example_constraint 1 1 3550000000 3555000000 (Member ESC))
            (Some example_esc) 30) = Inr [ItmCall 1 1 1 1]
   \<and> map_sum id snd (computeInterferenceFssCochannel example_collaborators
            (example_grant 1 1 3550000000 3560000000 ''A'')
            (example_constraint 1 1 3600000000 4200000000 (Member FSS_CO_CHANNEL))
            (Some example_fss) 30) = Inr [ItmCall 1 1 1 1]
   \<and> map_sum id snd (computeInterferenceFssBlocking example_collaborators
            (example_grant 1 1 3550000000 3560000000 ''A'')
            (example_constraint 1 1 3600000000 4200000000 (Member FSS_BLOCKING))
            (Some example_fss) 30) = Inr [ItmCall 1 1 1 1]
   \<and> map_sum id fst (computeInterferenceEsc example_collaborators
            (example_grant 1 1 3550000000 3560000000 ''A'')
            (example_constraint 1 1 3550000000 3555000000 (Member ESC))
            (Some example_esc) 30) = Inr (30 + 10 * log 10 5 - 120 - 1 / 2)"
  by (simp add: example_constraint_def example_grant_def example_collaborators_def example_esc_def
        example_fss_def
        computeInterferencePpaGwpzPoint_unfold computeInterferenceEsc_unfold
        computeInterferenceFssCochannel_unfold computeInterferenceFssBlocking_unfold
        ppa_gwpz_propagation_def itm_propagation_def
        getEffectiveSystemEirp_def linearToDb_def IAPBW_HZ_def MHZ_def IN_BAND_INSERTION_LOSS_def)

section \<open>Monotonicity in the allocated EIRP\<close>

lemma dbToLinear_mono: "x \<le> y \<Longrightarrow> dbToLinear x \<le> dbToLinear y"
  unfolding dbToLinear_def by (rule powr_mono) simp_all


lemma computeInterference_shape:
  "(\<exists>err. \<forall>e. computeInterference env g e c fss esc r = Inl err)
   \<or> (\<exists>k calls. \<forall>e. computeInterference env g e c fss esc r = Inr (dbToLinear (e + k), calls))"
proof -
  consider (co) "entity_type c = Member FSS_CO_CHANNEL"
    | (bl) "entity_type c = Member FSS_BLOCKING"
    | (es) "entity_type c = Member ESC"
    | (ar) "entity_type c \<noteq> Member FSS_CO_CHANNEL" "entity_type c \<noteq> Member FSS_BLOCKING"
           "entity_type c \<noteq> Member ESC"
    by blast
  then show ?thesis
  proof cases
    case co
    show ?thesis
    proof (cases fss)
      case None
      then show ?thesis
        using co by (simp add: computeInterference_def to_linear_def formula_without_incumbent)
    next
      case (Some f)
      have "\<forall>e. computeInterference env g e c fss esc r
              = Inr (dbToLinear (e + (getEffectiveSystemEirp 0 (antenna_gain g)
            (GetStandardAntennaGains env
               (hor_cbsd (snd (fst (itm_propagation env g c (fss_height_agl f)))))
               (antenna_azimuth g) (antenna_beamwidth g) (antenna_gain g)
             + GetFssAntennaGains env
                 (hor_rx (snd (fst (itm_propagation env g c (fss_height_agl f)))))
                 (ver_rx (snd (fst (itm_propagation env g c (fss_height_agl f)))))
                 (pointing_azimuth f) (pointing_elevation f) (max_gain_dbi f))
            None
          - fst (fst (itm_propagation env g c (fss_height_agl f))) - IN_BAND_INSERTION_LOSS)),
          snd (itm_propagation env g c (fss_height_agl f)))"
        using co Some
        by (simp add: computeInterference_def to_linear_def computeInterferenceFssCochannel_unfold
              getEffectiveSystemEirp_def algebra_simps)
      then show ?thesis by blast
    qed
  next
    case bl
    show ?thesis
    proof (cases fss)
      case None
      then show ?thesis
        using bl by (simp add: computeInterference_def to_linear_def formula_without_incumbent)
    next
      case (Some f)
      have "\<forall>e. computeInterference env g e c fss esc r
              = Inr (dbToLinear (e + (getEffectiveSystemEirp 0 (antenna_gain g)
            (GetStandardAntennaGains env
               (hor_cbsd (snd (fst (itm_propagation env g c (fss_height_agl f)))))
               (antenna_azimuth g) (antenna_beamwidth g) (antenna_gain g)
             + GetFssAntennaGains env
                 (hor_rx (snd (fst (itm_propagation env g c (fss_height_agl f)))))
                 (ver_rx (snd (fst (itm_propagation env g c (fss_height_agl f)))))
                 (pointing_azimuth f) (pointing_elevation f) (max_gain_dbi f))
            (Some (high_frequency g - low_frequency g))
          - getFssMaskLoss g c - fst (fst (itm_propagation env g c (fss_height_agl f))))),
          snd (itm_propagation env g c (fss_height_agl f)))"
        using bl Some
        by (simp add: computeInterference_def to_linear_def computeInterferenceFssBlocking_unfold
              getEffectiveSystemEirp_def algebra_simps)
      then show ?thesis by blast
    qed
  next
    case es
    show ?thesis
    proof (cases esc)
      case None
      then show ?thesis
        using es by (simp add: computeInterference_def to_linear_def formula_without_incumbent)
    next
      case (Some s)
      have "\<forall>e. computeInterference env g e c fss esc r
              = Inr (dbToLinear (e + (getEffectiveSystemEirp 0 (antenna_gain g)
            (GetStandardAntennaGains env
               (hor_cbsd (snd (fst (itm_propagation env g c (antenna_height s)))))
               (antenna_azimuth g) (antenna_beamwidth g) (antenna_gain g)
             + GetAntennaPatternGains env
                 (hor_rx (snd (fst (itm_propagation env g c (antenna_height s)))))
                 (esc_antenna_azimuth s) (antenna_pattern_gain s) (esc_antenna_gain s))
            None
          - fst (fst (itm_propagation env g c (antenna_height s))) - IN_BAND_INSERTION_LOSS)),
          snd (itm_propagation env g c (antenna_height s)))"
        using es Some
        by (simp add: computeInterference_def to_linear_def computeInterferenceEsc_unfold
              getEffectiveSystemEirp_def algebra_simps)
      then show ?thesis by blast
    qed
  next
    case ar
    have "\<forall>e. computeInterference env g e c fss esc r
            = Inr (dbToLinear (e + (getEffectiveSystemEirp 0 (antenna_gain g)
        (GetStandardAntennaGains env
           (hor_cbsd (snd (fst (ppa_gwpz_propagation env g c GWPZ_PPA_HEIGHT r))))
           (antenna_azimuth g) (antenna_beamwidth g) (antenna_gain g))
        None
      - fst (fst (ppa_gwpz_propagation env g c GWPZ_PPA_HEIGHT r)))),
      snd (ppa_gwpz_propagation env g c GWPZ_PPA_HEIGHT r))"
      using ar
      by (simp add: computeInterference_def to_linear_def computeInterferencePpaGwpzPoint_unfold
            getEffectiveSystemEirp_def algebra_simps)
    then show ?thesis by blast
  qed
qed

text \<open>
  Claim C9. With the grant, the constraint, the incumbent records and the collaborators
  fixed, raising the allocated EIRP never lowers the result of \<^verbatim>\<open>computeInterference\<close>:
  for \<open>e1 \<le> e2\<close> either both calls return a value, the first at most the second and
  with the same propagation calls, or both fail with the same error.
\<close>

theorem computeInterference_monotone:
  assumes "e1 \<le> e2"
  shows "case (computeInterference env g e1 c fss esc r,
               computeInterference env g e2 c fss esc r) of
           (Inr (v1, calls1), Inr (v2, calls2)) \<Rightarrow> v1 \<le> v2 \<and> calls1 = calls2
         | (Inl err1, Inl err2) \<Rightarrow> err1 = err2
         | _ \<Rightarrow> False"
proof -
  from computeInterference_shape [of env g c fss esc r]
  show ?thesis
  proof (elim disjE exE)
    fix err
    assume "\<forall>e. computeInterference env g e c fss esc r = Inl err"
    then show ?thesis by simp
  next
    fix k calls
    assume "\<forall>e. computeInterference env g e c fss esc r = Inr (dbToLinear (e + k), calls)"
    then show ?thesis using dbToLinear_mono [of "e1 + k" "e2 + k"] assms by simp
  qed
qed

text \<open>An ESC constraint at 20 dBm and at 30 dBm.\<close>

theorem computeInterference_monotone_witness:
  "computeInterference example_collaborators (example_grant 0 0 3550000000 3560000000 ''A'') 20
     (example_constraint 1 1 3550000000 3555000000 (Member ESC)) None (Some example_esc) None
     = Inr (dbToLinear (20 + 10 * log 10 5 - 120 - 1 / 2), [ItmCall 0 0 1 1])
   \<and> computeInterference example_collaborators (example_grant 0 0 3550000000 3560000000 ''A'') 30
     (example_constraint 1 1 3550000000 3555000000 (Member ESC)) None (Some example_esc) None
     = Inr (dbToLinear (30 + 10 * log 10 5 - 120 - 1 / 2), [ItmCall 0 0 1 1])
   \<and> dbToLinear (20 + 10 * log 10 5 - 120 - 1 / 2) \<le> dbToLinear (30 + 10 * log 10 5 - 120 - 1 / 2)"
proof -
  have h: "(20 :: real) \<le> 30" by simp
  have r: "\<And>e. computeInterference example_collaborators
       (example_grant 0 0 3550000000 3560000000 ''A'') e
       (example_constraint 1 1 3550000000 3555000000 (Member ESC)) None (Some example_esc) None
     = Inr (dbToLinear (e + 10 * log 10 5 - 120 - 1 / 2), [ItmCall 0 0 1 1])"
    by (simp add: computeInterference_def to_linear_def
        example_constraint_def example_grant_def example_collaborators_def example_esc_def
        computeInterferenceEsc_unfold itm_propagation_def
        getEffectiveSystemEirp_def linearToDb_def IAPBW_HZ_def MHZ_def IN_BAND_INSERTION_LOSS_def)
  show ?thesis
    using computeInterference_monotone [OF h, of example_collaborators
        "example_grant 0 0 3550000000 3560000000 ''A''"
        "example_constraint 1 1 3550000000 3555000000 (Member ESC)" None "Some example_esc" None]
    unfolding r by simp
qed


end
